theory Spec2Isabelle
  imports Complex_Main
begin

section \<open>JavaScript values\<close>

text \<open>
  The services compute on JavaScript numbers, which are binary64 doubles. A finite
  number is modelled as the real it is. Two readings of the arithmetic are given.
  The functions that carry the names of the source compute on exact reals: the binary
  rounding of each operation is left out, everything else (the order of the operations,
  the decimal rounding done by \<^verbatim>\<open>toFixed\<close> and \<^verbatim>\<open>Math.round\<close>, division by zero)
  is written out; they serve the properties of order, range and frame. The functions
  whose names end in \<open>64\<close> round every literal, every field read and every operation
  to the nearest double, as the code does; they serve the properties that fix a value.
  A division can leave the finite numbers, so its result is a \<open>js_number\<close>.
\<close>

datatype js_number = Num real | PosInfinity | NegInfinity | NaN

text \<open>\<^verbatim>\<open>a / b\<close> for finite operands; the divisors of the services are sums that start
  at \<^verbatim>\<open>0\<close>, so a zero divisor is \<^verbatim>\<open>+0\<close>.\<close>

definition js_div :: "real \<Rightarrow> real \<Rightarrow> js_number" where
  "js_div a b =
     (if b \<noteq> 0 then Num (a / b)
      else if a > 0 then PosInfinity
      else if a < 0 then NegInfinity
      else NaN)"

text \<open>\<^verbatim>\<open>x * c\<close> and \<^verbatim>\<open>x *= c\<close> for a finite constant \<open>c\<close>.\<close>

fun js_times :: "js_number \<Rightarrow> real \<Rightarrow> js_number" where
  "js_times (Num x) c = Num (x * c)"
| "js_times NaN c = NaN"
| "js_times PosInfinity c =
     (if c > 0 then PosInfinity else if c < 0 then NegInfinity else NaN)"
| "js_times NegInfinity c =
     (if c > 0 then NegInfinity else if c < 0 then PosInfinity else NaN)"

text \<open>\<^verbatim>\<open>Math.round(x)\<close>: the nearest integer, a tie going up.\<close>

definition Math_round :: "real \<Rightarrow> real" where
  "Math_round x = of_int \<lfloor>x + 1 / 2\<rfloor>"

fun js_round :: "js_number \<Rightarrow> js_number" where
  "js_round (Num x) = Num (Math_round x)"
| "js_round v = v"

text \<open>\<^verbatim>\<open>Math.max(x, c)\<close> and \<^verbatim>\<open>Math.min(x, c)\<close> for a finite \<open>c\<close>.\<close>

fun js_max :: "js_number \<Rightarrow> real \<Rightarrow> js_number" where
  "js_max (Num x) c = Num (max x c)"
| "js_max PosInfinity c = PosInfinity"
| "js_max NegInfinity c = Num c"
| "js_max NaN c = NaN"

fun js_min :: "js_number \<Rightarrow> real \<Rightarrow> js_number" where
  "js_min (Num x) c = Num (min x c)"
| "js_min PosInfinity c = Num c"
| "js_min NegInfinity c = NegInfinity"
| "js_min NaN c = NaN"

text \<open>
  \<^verbatim>\<open>parseFloat(x.toFixed(d))\<close>: \<^verbatim>\<open>toFixed\<close> prints the sign and then the integer
  \<open>n\<close> for which \<open>n / 10^d\<close> is nearest to \<open>|x|\<close>, the larger \<open>n\<close> on a tie;
  \<^verbatim>\<open>parseFloat\<close> reads the decimal back.
\<close>

definition toFixed :: "nat \<Rightarrow> real \<Rightarrow> real" where
  "toFixed d x =
     (if x < 0 then - (of_int \<lfloor>(- x) * 10 ^ d + 1 / 2\<rfloor> / 10 ^ d)
      else of_int \<lfloor>x * 10 ^ d + 1 / 2\<rfloor> / 10 ^ d)"

subsection \<open>Binary64\<close>

text \<open>The integer nearest to \<open>x\<close>, the even one on a tie.\<close>

definition round_half_even :: "real \<Rightarrow> int" where
  "round_half_even x =
     (let n = \<lfloor>x\<rfloor>; r = x - of_int n
      in if r < 1 / 2 then n
         else if r > 1 / 2 then n + 1
         else if even n then n else n + 1)"

text \<open>
  The binary exponent of a positive number, the floor of its binary logarithm, found by halving or
  doubling; it stops at -1022, the exponent of the subnormal numbers, and at 1023.
\<close>

fun exponent_up :: "nat \<Rightarrow> real \<Rightarrow> int" where
  "exponent_up 0 x = 0"
| "exponent_up (Suc n) x = (if x < 2 then 0 else 1 + exponent_up n (x / 2))"

fun exponent_down :: "nat \<Rightarrow> real \<Rightarrow> int" where
  "exponent_down 0 x = 0"
| "exponent_down (Suc n) x = (if 1 \<le> x then 0 else exponent_down n (x * 2) - 1)"

definition exponent :: "real \<Rightarrow> int" where
  "exponent a = (if 1 \<le> a then exponent_up 1023 a else exponent_down 1022 a)"

text \<open>
  The double nearest to \<open>x\<close>, the one with the even significand on a tie: \<open>x\<close> is
  rounded to a multiple of the unit in the last of its 53 significant bits. This is
  what a decimal literal denotes and what each arithmetic operation returns. Numbers
  of magnitude \<open>2 ^ 1024\<close> and more, where the code overflows to \<^verbatim>\<open>Infinity\<close>,
  are outside the model.
\<close>

definition double :: "real \<Rightarrow> real" where
  "double x =
     (if x = 0 then 0
      else let a = \<bar>x\<bar>; u = 2 powi (exponent a - 52)
           in sgn x * (of_int (round_half_even (a / u)) * u))"

text \<open>\<^verbatim>\<open>a + b\<close>, \<^verbatim>\<open>a - b\<close>, \<^verbatim>\<open>a * b\<close> and \<^verbatim>\<open>a / b\<close> (for \<open>b \<noteq> 0\<close>) on doubles.\<close>

definition add64 :: "real \<Rightarrow> real \<Rightarrow> real" where
  "add64 a b = double (a + b)"

definition sub64 :: "real \<Rightarrow> real \<Rightarrow> real" where
  "sub64 a b = double (a - b)"

definition mul64 :: "real \<Rightarrow> real \<Rightarrow> real" where
  "mul64 a b = double (a * b)"

definition div64 :: "real \<Rightarrow> real \<Rightarrow> real" where
  "div64 a b = double (a / b)"

text \<open>\<^verbatim>\<open>parseFloat(x.toFixed(d))\<close> on a double: \<^verbatim>\<open>toFixed\<close> rounds the exact value of
  \<open>x\<close>, \<^verbatim>\<open>parseFloat\<close> returns the double nearest to the decimal printed.\<close>

definition toFixed64 :: "nat \<Rightarrow> real \<Rightarrow> real" where
  "toFixed64 d x = double (toFixed d x)"

text \<open>
  \<^verbatim>\<open>obj[key]\<close> on an object literal: an own property, else a member inherited from
  \<^verbatim>\<open>Object.prototype\<close> (a function or the prototype object, all truthy), else
  \<^verbatim>\<open>undefined\<close>.
\<close>

datatype 'a js_prop = Own 'a | Inherited | Missing

definition object_prototype_keys :: "string list" where
  "object_prototype_keys =
     [''constructor'', ''__defineGetter__'', ''__defineSetter__'', ''hasOwnProperty'',
      ''__lookupGetter__'', ''__lookupSetter__'', ''isPrototypeOf'',
      ''propertyIsEnumerable'', ''toString'', ''valueOf'', ''__proto__'',
      ''toLocaleString'']"

definition js_get :: "(string \<times> 'a) list \<Rightarrow> string \<Rightarrow> 'a js_prop" where
  "js_get obj key =
     (case map_of obj key of
        Some v \<Rightarrow> Own v
      | None \<Rightarrow> if key \<in> set object_prototype_keys then Inherited else Missing)"

fun the_own :: "'a js_prop \<Rightarrow> 'a" where
  "the_own (Own v) = v"

text \<open>\<^verbatim>\<open>s.trim()\<close>, on the ASCII white space (tab, LF, VT, FF, CR, space).\<close>

definition is_space :: "char \<Rightarrow> bool" where
  "is_space c = (c \<in> set [CHR 0x09, CHR 0x0A, CHR 0x0B, CHR 0x0C, CHR 0x0D, CHR 0x20])"

definition trim :: "string \<Rightarrow> string" where
  "trim s = rev (dropWhile is_space (rev (dropWhile is_space s)))"

text \<open>\<^verbatim>\<open>xs.slice(start)\<close>: a negative start counts from the end.\<close>

definition slice :: "int \<Rightarrow> 'a list \<Rightarrow> 'a list" where
  "slice start xs =
     (let len = int (length xs);
          k = (if start < 0 then max (len + start) 0 else min start len)
      in drop (nat k) xs)"

section \<open>Telemetry samples and the diagnostic catalog\<close>

text \<open>
  One reading of the vehicle. \<open>dtc_code\<close> is \<open>None\<close> where the property is absent.
  The functions below take any extension of the record, so that a sample may carry
  further properties.
\<close>

record sample =
  speed_kmph :: real
  engine_rpm :: real
  fuel_level_pct :: real
  engine_temp_c :: real
  lat :: real
  lon :: real
  timestamp :: string
  dtc_code :: "string option"

text \<open>\<^verbatim>\<open>point.dtc_code && point.dtc_code.trim() !== ''\<close>\<close>

definition has_dtc :: "'a sample_scheme \<Rightarrow> bool" where
  "has_dtc point = (case dtc_code point of None \<Rightarrow> False | Some c \<Rightarrow> trim c \<noteq> [])"

record diagnostic_entry =
  description :: string
  severity :: string
  impact :: string
  rewardImpact :: real

definition dtcInfo :: "(string \<times> diagnostic_entry) list" where
  "dtcInfo =
     [(''P0420'', \<lparr>description = ''Catalyst System Efficiency Below Threshold'',
                   severity = ''Medium'',
                   impact = ''May affect emissions and fuel efficiency'',
                   rewardImpact = - 15\<rparr>),
      (''P0171'', \<lparr>description = ''System Too Lean (Bank 1)'',
                   severity = ''Medium'',
                   impact = ''May cause rough idling and reduced fuel efficiency'',
                   rewardImpact = - 10\<rparr>),
      (''P0300'', \<lparr>description = ''Random/Multiple Cylinder Misfire Detected'',
                   severity = ''High'',
                   impact = ''Can damage catalytic converter if ignored'',
                   rewardImpact = - 25\<rparr>)]"

text \<open>\<^verbatim>\<open>dtcCode && dtcInfo[dtcCode] ? dtcInfo[dtcCode] : null\<close>; \<open>Missing\<close> is the
  \<^verbatim>\<open>null\<close>.\<close>

definition getDiagnosticInfo :: "string \<Rightarrow> diagnostic_entry js_prop" where
  "getDiagnosticInfo dtcCode =
     (if dtcCode \<noteq> [] \<and> js_get dtcInfo dtcCode \<noteq> Missing
      then js_get dtcInfo dtcCode else Missing)"

section \<open>Scoring: car-data.service.js\<close>

definition getDataPointRewardValue :: "'a sample_scheme \<Rightarrow> real" where
  "getDataPointRewardValue dataPoint =
     (let baseReward = 0.01;
          speed = speed_kmph dataPoint;
          baseReward = (if speed \<ge> 40 \<and> speed \<le> 80 then baseReward * 1.2 else baseReward);
          rpm = engine_rpm dataPoint;
          baseReward = (if rpm \<ge> 1500 \<and> rpm \<le> 2500 then baseReward * 1.15 else baseReward);
          baseReward =
            (case dtc_code dataPoint of
               None \<Rightarrow> baseReward
             | Some code \<Rightarrow>
                 if trim code \<noteq> [] then
                   (case getDiagnosticInfo code of
                      Own info \<Rightarrow>
                        if rewardImpact info \<noteq> 0
                        then baseReward * (1 + rewardImpact info / 100) else baseReward
                    | _ \<Rightarrow> baseReward)
                 else baseReward)
      in toFixed 4 baseReward)"

definition getDataBatchRewardValue :: "'a sample_scheme list \<Rightarrow> real" where
  "getDataBatchRewardValue dataPoints =
     (if dataPoints = [] then 0
      else
        let totalReward =
              foldl (\<lambda>total dataPoint. total + getDataPointRewardValue dataPoint) 0 dataPoints;
            totalReward = (if length dataPoints > 10 then totalReward * 1.1 else totalReward)
        in toFixed 4 totalReward)"

text \<open>The two reward functions on doubles.\<close>

definition getDataPointRewardValue64 :: "'a sample_scheme \<Rightarrow> real" where
  "getDataPointRewardValue64 dataPoint =
     (let baseReward = double 0.01;
          speed = double (speed_kmph dataPoint);
          baseReward =
            (if speed \<ge> 40 \<and> speed \<le> 80 then mul64 baseReward (double 1.2) else baseReward);
          rpm = double (engine_rpm dataPoint);
          baseReward =
            (if rpm \<ge> 1500 \<and> rpm \<le> 2500 then mul64 baseReward (double 1.15)
             else baseReward);
          baseReward =
            (case dtc_code dataPoint of
               None \<Rightarrow> baseReward
             | Some code \<Rightarrow>
                 if trim code \<noteq> [] then
                   (case getDiagnosticInfo code of
                      Own info \<Rightarrow>
                        if rewardImpact info \<noteq> 0
                        then mul64 baseReward
                               (add64 1 (div64 (double (rewardImpact info)) 100))
                        else baseReward
                    | _ \<Rightarrow> baseReward)
                 else baseReward)
      in toFixed64 4 baseReward)"

definition getDataBatchRewardValue64 :: "'a sample_scheme list \<Rightarrow> real" where
  "getDataBatchRewardValue64 dataPoints =
     (if dataPoints = [] then 0
      else
        let totalReward =
              foldl (\<lambda>total dataPoint. add64 total (getDataPointRewardValue64 dataPoint))
                0 dataPoints;
            totalReward =
              (if length dataPoints > 10 then mul64 totalReward (double 1.1)
               else totalReward)
        in toFixed64 4 totalReward)"

definition getVehicleEfficiencyScore :: "'a sample_scheme list \<Rightarrow> int \<Rightarrow> js_number" where
  "getVehicleEfficiencyScore dataPoints timeframeMinutes =
     (if length dataPoints < 5 then Num 0
      else
        let limitedDataPoints = slice (- timeframeMinutes) dataPoints in
        if limitedDataPoints = [] then NaN
        else
          let avgRPM = foldl (\<lambda>sum point. sum + engine_rpm point) 0 limitedDataPoints
                         / real (length limitedDataPoints);
              avgSpeed = foldl (\<lambda>sum point. sum + speed_kmph point) 0 limitedDataPoints
                         / real (length limitedDataPoints);
              hasErrors = list_ex has_dtc limitedDataPoints;
              score = js_times (js_div avgSpeed (avgRPM / 1000)) 10;
              score = (if hasErrors then js_times score 0.7 else score)
          in js_min (js_max (js_round score) 0) 100)"

section \<open>Route transformation: local-drive-simulator.service.js\<close>

record route_profile =
  name :: string
  route_description :: string
  averageSpeed :: real
  maxSpeed :: real
  trafficDensity :: string
  distance :: real
  estimatedTime :: real
  fuelConsumption :: string
  elevationChange :: string

definition routes :: "(string \<times> route_profile) list" where
  "routes =
     [(''URBAN'', \<lparr>name = ''Urban City Drive'',
                   route_description = ''Dense city traffic with stops and moderate speeds'',
                   averageSpeed = 35, maxSpeed = 60, trafficDensity = ''high'',
                   distance = 12.5, estimatedTime = 25, fuelConsumption = ''moderate'',
                   elevationChange = ''low''\<rparr>),
      (''HIGHWAY'', \<lparr>name = ''Highway Cruise'',
                   route_description = ''Fast highway driving with consistent speeds'',
                   averageSpeed = 85, maxSpeed = 110, trafficDensity = ''low'',
                   distance = 45.0, estimatedTime = 35, fuelConsumption = ''efficient'',
                   elevationChange = ''moderate''\<rparr>),
      (''MOUNTAIN'', \<lparr>name = ''Mountain Pass'',
                   route_description =
                     ''Winding roads with elevation changes and variable speeds'',
                   averageSpeed = 45, maxSpeed = 70, trafficDensity = ''very low'',
                   distance = 28.0, estimatedTime = 40, fuelConsumption = ''high'',
                   elevationChange = ''high''\<rparr>),
      (''RURAL'', \<lparr>name = ''Country Roads'',
                   route_description = ''Relaxed driving through farmland and villages'',
                   averageSpeed = 55, maxSpeed = 80, trafficDensity = ''very low'',
                   distance = 32.0, estimatedTime = 35, fuelConsumption = ''moderate'',
                   elevationChange = ''moderate''\<rparr>)]"

text \<open>
  What one call of \<^verbatim>\<open>modifyDataForRoute\<close> takes from its environment: the values of
  its \<^verbatim>\<open>Math.random()\<close> calls, in the order of the calls (the speed term, the test
  for a trouble code, the choice of the code), and the value of
  \<^verbatim>\<open>Math.sin(Date.now() / 5000)\<close>.
\<close>

record draws =
  speed_rand :: real
  dtc_rand :: real
  code_rand :: real
  sin_now :: real

text \<open>The \<^verbatim>\<open>switch (routeType)\<close> of \<^verbatim>\<open>modifyDataForRoute\<close>, applied to the clone.\<close>

definition route_switch ::
  "'a sample_scheme \<Rightarrow> string \<Rightarrow> draws \<Rightarrow> 'a sample_scheme \<Rightarrow> 'a sample_scheme" where
  "route_switch dataPoint routeType rnd modifiedData =
     (let route = js_get routes routeType in
      if routeType = ''URBAN'' then
        let m = modifiedData\<lparr>speed_kmph :=
                  min (max 15 (speed_kmph dataPoint * 0.6 + speed_rand rnd * 20 - 10))
                      (maxSpeed (the_own route))\<rparr>;
            m = m\<lparr>engine_rpm := 1000 + speed_kmph m * 30\<rparr>
        in if dtc_rand rnd < 0.1
           then m\<lparr>dtc_code := Some (if code_rand rnd < 0.7 then ''P0420'' else ''P0171'')\<rparr>
           else m
      else if routeType = ''HIGHWAY'' then
        let m = modifiedData\<lparr>speed_kmph :=
                  min (max 70 (speed_kmph dataPoint * 1.2 + speed_rand rnd * 10 - 5))
                      (maxSpeed (the_own route))\<rparr>;
            m = m\<lparr>engine_rpm := 1500 + speed_kmph m * 20\<rparr>
        in if dtc_rand rnd < 0.03 then m\<lparr>dtc_code := Some ''P0420''\<rparr> else m
      else if routeType = ''MOUNTAIN'' then
        let m = modifiedData\<lparr>speed_kmph :=
                  min (max 20 (speed_kmph dataPoint * 0.8 + sin_now rnd * 25))
                      (maxSpeed (the_own route))\<rparr>;
            m = m\<lparr>engine_rpm := 2000 + speed_kmph m * 35\<rparr>;
            m = m\<lparr>engine_temp_c := engine_temp_c dataPoint * 1.1\<rparr>
        in if dtc_rand rnd < 0.07
           then m\<lparr>dtc_code := Some (if code_rand rnd < 0.4 then ''P0300'' else ''P0171'')\<rparr>
           else m
      else if routeType = ''RURAL'' then
        let m = modifiedData\<lparr>speed_kmph :=
                  min (max 40 (speed_kmph dataPoint * 0.9 + speed_rand rnd * 15 - 5))
                      (maxSpeed (the_own route))\<rparr>;
            m = m\<lparr>engine_rpm := 1200 + speed_kmph m * 25\<rparr>
        in if dtc_rand rnd < 0.02 then m\<lparr>dtc_code := Some ''P0171''\<rparr> else m
      else modifiedData)"

text \<open>\<^verbatim>\<open>(speed > 50 && speed < 90) ? 0.9 : 1.2\<close>\<close>

definition fuelConsumptionFactor :: "real \<Rightarrow> real" where
  "fuelConsumptionFactor speed = (if speed > 50 \<and> speed < 90 then 0.9 else 1.2)"

definition modifyDataForRoute ::
  "'a sample_scheme \<Rightarrow> string \<Rightarrow> draws \<Rightarrow> 'a sample_scheme" where
  "modifyDataForRoute dataPoint routeType rnd =
     (let modifiedData = dataPoint;
          modifiedData = route_switch dataPoint routeType rnd modifiedData;
          modifiedData = modifiedData\<lparr>speed_kmph := toFixed 2 (speed_kmph modifiedData)\<rparr>;
          modifiedData = modifiedData\<lparr>engine_rpm := Math_round (engine_rpm modifiedData)\<rparr>;
          modifiedData =
            modifiedData\<lparr>engine_temp_c := toFixed 1 (engine_temp_c modifiedData)\<rparr>;
          factor = fuelConsumptionFactor (speed_kmph modifiedData);
          modifiedData = modifiedData\<lparr>fuel_level_pct :=
            max 0 (fuel_level_pct dataPoint - 0.01 * factor * (engine_rpm modifiedData / 2000))\<rparr>;
          modifiedData =
            modifiedData\<lparr>fuel_level_pct := toFixed 2 (fuel_level_pct modifiedData)\<rparr>
      in modifiedData)"

text \<open>The route transformation on doubles.\<close>

definition route_switch64 ::
  "'a sample_scheme \<Rightarrow> string \<Rightarrow> draws \<Rightarrow> 'a sample_scheme \<Rightarrow> 'a sample_scheme" where
  "route_switch64 dataPoint routeType rnd modifiedData =
     (let route = js_get routes routeType;
          speed = double (speed_kmph dataPoint)
      in
      if routeType = ''URBAN'' then
        let m = modifiedData\<lparr>speed_kmph :=
                  min (max 15 (sub64 (add64 (mul64 speed (double 0.6))
                                        (mul64 (double (speed_rand rnd)) 20)) 10))
                      (maxSpeed (the_own route))\<rparr>;
            m = m\<lparr>engine_rpm := add64 1000 (mul64 (speed_kmph m) 30)\<rparr>
        in if double (dtc_rand rnd) < double 0.1
           then m\<lparr>dtc_code :=
                   Some (if double (code_rand rnd) < double 0.7 then ''P0420'' else ''P0171'')\<rparr>
           else m
      else if routeType = ''HIGHWAY'' then
        let m = modifiedData\<lparr>speed_kmph :=
                  min (max 70 (sub64 (add64 (mul64 speed (double 1.2))
                                        (mul64 (double (speed_rand rnd)) 10)) 5))
                      (maxSpeed (the_own route))\<rparr>;
            m = m\<lparr>engine_rpm := add64 1500 (mul64 (speed_kmph m) 20)\<rparr>
        in if double (dtc_rand rnd) < double 0.03 then m\<lparr>dtc_code := Some ''P0420''\<rparr> else m
      else if routeType = ''MOUNTAIN'' then
        let m = modifiedData\<lparr>speed_kmph :=
                  min (max 20 (add64 (mul64 speed (double 0.8))
                                 (mul64 (double (sin_now rnd)) 25)))
                      (maxSpeed (the_own route))\<rparr>;
            m = m\<lparr>engine_rpm := add64 2000 (mul64 (speed_kmph m) 35)\<rparr>;
            m = m\<lparr>engine_temp_c := mul64 (double (engine_temp_c dataPoint)) (double 1.1)\<rparr>
        in if double (dtc_rand rnd) < double 0.07
           then m\<lparr>dtc_code :=
                   Some (if double (code_rand rnd) < double 0.4 then ''P0300'' else ''P0171'')\<rparr>
           else m
      else if routeType = ''RURAL'' then
        let m = modifiedData\<lparr>speed_kmph :=
                  min (max 40 (sub64 (add64 (mul64 speed (double 0.9))
                                        (mul64 (double (speed_rand rnd)) 15)) 5))
                      (maxSpeed (the_own route))\<rparr>;
            m = m\<lparr>engine_rpm := add64 1200 (mul64 (speed_kmph m) 25)\<rparr>
        in if double (dtc_rand rnd) < double 0.02 then m\<lparr>dtc_code := Some ''P0171''\<rparr> else m
      else modifiedData)"

definition fuelConsumptionFactor64 :: "real \<Rightarrow> real" where
  "fuelConsumptionFactor64 speed =
     (if speed > 50 \<and> speed < 90 then double 0.9 else double 1.2)"

definition modifyDataForRoute64 ::
  "'a sample_scheme \<Rightarrow> string \<Rightarrow> draws \<Rightarrow> 'a sample_scheme" where
  "modifyDataForRoute64 dataPoint routeType rnd =
     (let modifiedData = dataPoint;
          modifiedData = route_switch64 dataPoint routeType rnd modifiedData;
          modifiedData =
            modifiedData\<lparr>speed_kmph := toFixed64 2 (double (speed_kmph modifiedData))\<rparr>;
          modifiedData =
            modifiedData\<lparr>engine_rpm := Math_round (double (engine_rpm modifiedData))\<rparr>;
          modifiedData =
            modifiedData\<lparr>engine_temp_c :=
              toFixed64 1 (double (engine_temp_c modifiedData))\<rparr>;
          factor = fuelConsumptionFactor64 (speed_kmph modifiedData);
          modifiedData = modifiedData\<lparr>fuel_level_pct :=
            max 0 (sub64 (double (fuel_level_pct dataPoint))
                     (mul64 (mul64 (double 0.01) factor)
                        (div64 (engine_rpm modifiedData) 2000)))\<rparr>;
          modifiedData =
            modifiedData\<lparr>fuel_level_pct := toFixed64 2 (fuel_level_pct modifiedData)\<rparr>
      in modifiedData)"

text \<open>
  The same function on a store of objects, an address being an index into the list of
  the objects allocated so far: \<^verbatim>\<open>{ ...dataPoint }\<close> allocates the clone, and every
  assignment of the body writes the object at \<open>modifiedData\<close>.
\<close>

definition modifyDataForRoute_store ::
  "'a sample_scheme list \<Rightarrow> nat \<Rightarrow> string \<Rightarrow> draws \<Rightarrow> nat \<times> 'a sample_scheme list" where
  "modifyDataForRoute_store heap dataPoint routeType rnd =
     (let modifiedData = length heap;
          heap = heap @ [heap ! dataPoint];
          heap = heap[modifiedData :=
                   route_switch (heap ! dataPoint) routeType rnd (heap ! modifiedData)];
          heap = heap[modifiedData := (heap ! modifiedData)
                   \<lparr>speed_kmph := toFixed 2 (speed_kmph (heap ! modifiedData))\<rparr>];
          heap = heap[modifiedData := (heap ! modifiedData)
                   \<lparr>engine_rpm := Math_round (engine_rpm (heap ! modifiedData))\<rparr>];
          heap = heap[modifiedData := (heap ! modifiedData)
                   \<lparr>engine_temp_c := toFixed 1 (engine_temp_c (heap ! modifiedData))\<rparr>];
          factor = fuelConsumptionFactor (speed_kmph (heap ! modifiedData));
          heap = heap[modifiedData := (heap ! modifiedData)
                   \<lparr>fuel_level_pct :=
                      max 0 (fuel_level_pct (heap ! dataPoint)
                             - 0.01 * factor * (engine_rpm (heap ! modifiedData) / 2000))\<rparr>];
          heap = heap[modifiedData := (heap ! modifiedData)
                   \<lparr>fuel_level_pct := toFixed 2 (fuel_level_pct (heap ! modifiedData))\<rparr>]
      in (modifiedData, heap))"

section \<open>Session start: local-drive-simulator.service.js\<close>

text \<open>
  The static fields of \<^verbatim>\<open>LocalDriveSimulator\<close> and, of \<^verbatim>\<open>CarDataService\<close>, the
  loaded corpus and the streaming flag. \<open>subscribed\<close> says that
  \<^verbatim>\<open>LocalDriveSimulator.unsubscribe\<close> holds a subscription to the stream.
\<close>

record 'a simulator =
  isSimulating :: bool
  simulationData :: "'a sample_scheme list"
  currentRoute :: "string option"
  simulationStartTimestamp :: "real option"
  simulationElapsedTime :: real
  subscribed :: bool
  syntheticData :: "'a sample_scheme list"
  isStreaming :: bool

datatype js_error = TypeError | RangeError | Error string

text \<open>
  The object a call resolves to: \<^verbatim>\<open>{success: false, message}\<close>, or
  \<^verbatim>\<open>{success: true, route, estimatedDuration, message}\<close>, whose message repeats the
  route name and the duration.
\<close>

datatype start_result = Failure string | Started "string option" real

text \<open>\<^verbatim>\<open>route.name\<close>: an inherited member is a built-in function, named after its
  key (\<^verbatim>\<open>constructor\<close> is \<^verbatim>\<open>Object\<close>), or the prototype object, which has no name.\<close>

definition route_name :: "route_profile js_prop \<Rightarrow> string \<Rightarrow> string option" where
  "route_name route key =
     (case route of
        Own r \<Rightarrow> Some (name r)
      | Inherited \<Rightarrow>
          if key = ''constructor'' then Some ''Object''
          else if key = ''__proto__'' then None else Some key
      | Missing \<Rightarrow> None)"

text \<open>
  \<^verbatim>\<open>startSimulation(routeType, durationMinutes)\<close>. \<open>load\<close> is what
  \<^verbatim>\<open>CarDataService.loadSyntheticData()\<close> would load (\<open>None\<close>: neither the JSON nor the
  CSV file can be read), \<open>now\<close> the clock. \<^verbatim>\<open>CarDataService.startSimulation(1000)\<close>
  returns no stream when it is already streaming, so that \<^verbatim>\<open>stream.subscribe\<close> throws,
  and throws itself on an empty corpus.
\<close>

definition startSimulation ::
  "string \<Rightarrow> real \<Rightarrow> 'a sample_scheme list option \<Rightarrow> real \<Rightarrow> 'a simulator
     \<Rightarrow> (js_error + start_result) \<times> 'a simulator" where
  "startSimulation routeType durationMinutes load now s =
     (if isSimulating s then (Inr (Failure ''A simulation is already running''), s)
      else
        case (if syntheticData s = []
              then map_option (\<lambda>loaded. s\<lparr>syntheticData := loaded\<rparr>) load
              else Some s) of
          None \<Rightarrow> (Inr (Failure ''Failed to load simulation data''), s)
        | Some s \<Rightarrow>
            let route = js_get routes routeType in
            if route = Missing then
              (Inr (Failure
                 ''Invalid route type. Choose from: URBAN, HIGHWAY, MOUNTAIN, RURAL''), s)
            else
              let s = s\<lparr>currentRoute := Some routeType\<rparr>;
                  s = s\<lparr>isSimulating := True\<rparr>;
                  s = s\<lparr>simulationData := []\<rparr>;
                  s = s\<lparr>simulationStartTimestamp := Some now\<rparr>;
                  s = s\<lparr>simulationElapsedTime := 0\<rparr>
              in
                if isStreaming s then (Inl TypeError, s)
                else if syntheticData s = [] then
                  (Inl (Error ''No synthetic data loaded. Call loadSyntheticData first.''), s)
                else
                  let s = s\<lparr>isStreaming := True\<rparr>;
                      s = s\<lparr>subscribed := True\<rparr>
                  in (Inr (Started (route_name route routeType) durationMinutes), s))"

section \<open>Valuation: market-place.service.js\<close>

record data_type =
  type_name :: string
  type_description :: string
  privacyImpact :: string
  baseValue :: real
  type_fields :: "string list"

definition dataTypes :: "(string \<times> data_type) list" where
  "dataTypes =
     [(''LOCATION'', \<lparr>type_name = ''Location Data'',
         type_description = ''GPS coordinates and movement patterns'',
         privacyImpact = ''High'', baseValue = 0.05,
         type_fields = [''lat'', ''lon'', ''timestamp'']\<rparr>),
      (''PERFORMANCE'', \<lparr>type_name = ''Vehicle Performance'',
         type_description = ''Engine parameters, speed, and performance metrics'',
         privacyImpact = ''Low'', baseValue = 0.03,
         type_fields = [''speed_kmph'', ''engine_rpm'', ''timestamp'']\<rparr>),
      (''DIAGNOSTIC'', \<lparr>type_name = ''Diagnostic Information'',
         type_description = ''Engine health, error codes, and maintenance data'',
         privacyImpact = ''Low'', baseValue = 0.07,
         type_fields = [''engine_temp_c'', ''dtc_code'', ''timestamp'']\<rparr>),
      (''FUEL'', \<lparr>type_name = ''Fuel Consumption'',
         type_description = ''Fuel usage patterns and efficiency data'',
         privacyImpact = ''Medium'', baseValue = 0.04,
         type_fields = [''fuel_level_pct'', ''speed_kmph'', ''timestamp'']\<rparr>),
      (''COMPLETE'', \<lparr>type_name = ''Complete Vehicle Data'',
         type_description = ''Full vehicle dataset including all parameters'',
         privacyImpact = ''Very High'', baseValue = 0.15,
         type_fields = [''*'']\<rparr>)]"

text \<open>\<^verbatim>\<open>s.split('.')[1]\<close> for a string that holds a point.\<close>

definition after_dot :: "string \<Rightarrow> string" where
  "after_dot s = takeWhile (\<lambda>c. c \<noteq> CHR ''.'') (tl (dropWhile (\<lambda>c. c \<noteq> CHR ''.'') s))"

text \<open>
  What \<^verbatim>\<open>estimateDataValue\<close> takes from the engine it runs on: the conversion
  \<^verbatim>\<open>String(x)\<close> of a number to its shortest decimal, and the number of arguments that
  a call can spread (\<^verbatim>\<open>f(...xs)\<close> throws a \<^verbatim>\<open>RangeError\<close> on a longer array).
\<close>

record js_engine =
  numberToString :: "real \<Rightarrow> string"
  maxArguments :: nat

text \<open>\<^verbatim>\<open>Math.max(...xs)\<close> and \<^verbatim>\<open>Math.min(...xs)\<close> of a nonempty array.\<close>

definition Math_max :: "js_engine \<Rightarrow> real list \<Rightarrow> js_error + real" where
  "Math_max engine xs =
     (if length xs > maxArguments engine then Inl RangeError
      else Inr (foldl max (hd xs) (tl xs)))"

definition Math_min :: "js_engine \<Rightarrow> real list \<Rightarrow> js_error + real" where
  "Math_min engine xs =
     (if length xs > maxArguments engine then Inl RangeError
      else Inr (foldl min (hd xs) (tl xs)))"

text \<open>
  \<^verbatim>\<open>estimateDataValue(dataPoints, dataType)\<close>. An inherited member has no
  \<^verbatim>\<open>baseValue\<close>: the product is \<^verbatim>\<open>NaN\<close>, no \<^verbatim>\<open>case\<close> matches and \<^verbatim>\<open>NaN\<close> is
  returned.
\<close>

definition estimateDataValue ::
  "js_engine \<Rightarrow> 'a sample_scheme list \<Rightarrow> string \<Rightarrow> js_error + js_number" where
  "estimateDataValue engine dataPoints dataType =
     (if dataPoints = [] then Inr (Num 0)
      else
        case js_get dataTypes dataType of
          Missing \<Rightarrow> Inl (Error (''Invalid data type: '' @ dataType))
        | Inherited \<Rightarrow> Inr NaN
        | Own typeInfo \<Rightarrow>
            let val = real (length dataPoints) * baseValue typeInfo;
                val =
                  (if dataType = ''LOCATION'' then
                     let hasUrbanData =
                           list_ex (\<lambda>point.
                              let lat_s = numberToString engine (lat point);
                                  lon_s = numberToString engine (lon point)
                              in CHR ''.'' \<in> set lat_s \<and> CHR ''.'' \<in> set lon_s \<and>
                                 length (after_dot lat_s) > 5 \<and> length (after_dot lon_s) > 5)
                             dataPoints
                     in Inr (if hasUrbanData then val * 1.3 else val)
                   else if dataType = ''DIAGNOSTIC'' then
                     let hasDiagnosticCodes = list_ex has_dtc dataPoints
                     in Inr (if hasDiagnosticCodes then val * 1.5 else val)
                   else if dataType = ''PERFORMANCE'' then
                     let speeds = map speed_kmph dataPoints in
                     (case Math_max engine speeds of
                        Inl e \<Rightarrow> Inl e
                      | Inr highest \<Rightarrow>
                          (case Math_min engine speeds of
                             Inl e \<Rightarrow> Inl e
                           | Inr lowest \<Rightarrow>
                               let speedVariation = highest - lowest
                               in Inr (if speedVariation > 30 then val * 1.2 else val)))
                   else if dataType = ''COMPLETE'' then
                     Inr (if length dataPoints > 100 then val * 1.1 else val)
                   else Inr val)
            in (case val of
                  Inl e \<Rightarrow> Inl e
                | Inr v \<Rightarrow> Inr (Num (toFixed 4 v))))"

text \<open>
  A conversion to instantiate \<open>numberToString\<close> with: the plain decimal notation (sign,
  integer digits, and the fractional digits if there are any, at most 17 of them), which
  is what \<^verbatim>\<open>String\<close> prints for a coordinate such as \<^verbatim>\<open>19.432608\<close>.
\<close>

definition digit :: "nat \<Rightarrow> char" where
  "digit n = ''0123456789'' ! n"

function nat_digits :: "nat \<Rightarrow> string" where
  "nat_digits n = (if n < 10 then [digit n] else nat_digits (n div 10) @ [digit (n mod 10)])"
  by pat_completeness auto
termination
  by (relation "measure id") auto

fun frac_digits :: "nat \<Rightarrow> real \<Rightarrow> string" where
  "frac_digits 0 x = []"
| "frac_digits (Suc k) x =
     (if x = 0 then []
      else let d = \<lfloor>x * 10\<rfloor> in digit (nat d) # frac_digits k (x * 10 - of_int d))"

definition decimal_string :: "real \<Rightarrow> string" where
  "decimal_string x =
     (let a = \<bar>x\<bar>; n = \<lfloor>a\<rfloor>; f = a - of_int n
      in (if x < 0 then ''-'' else []) @ nat_digits (nat n) @
         (if f = 0 then [] else CHR ''.'' # frac_digits 17 f))"

text \<open>An engine to evaluate on; the limit is of the order of the one observed on Node.\<close>

definition example_engine :: js_engine where
  "example_engine = \<lparr>numberToString = decimal_string, maxArguments = 125000\<rparr>"

section \<open>The spec's words, and inputs to evaluate the model on\<close>

text \<open>
  The factor the spec gives a trouble code: \<open>1 + rewardImpactPercent / 100\<close> for a code
  of the Diagnostic Catalog, no penalty for a missing code or one the catalog lacks.
\<close>

definition catalog_factor :: "string option \<Rightarrow> real" where
  "catalog_factor c =
     (case c of
        None \<Rightarrow> 1
      | Some code \<Rightarrow>
          (case map_of dtcInfo code of
             None \<Rightarrow> 1
           | Some entry \<Rightarrow> 1 + rewardImpact entry / 100))"

text \<open>The spec's bonus of a batch: \<open>\<times>1.1\<close> if the sample count exceeds 10.\<close>

definition batch_bonus :: "nat \<Rightarrow> real" where
  "batch_bonus n = (if n > 10 then 1.1 else 1)"

definition efficient_sample :: sample where
  "efficient_sample =
     \<lparr>speed_kmph = 60, engine_rpm = 2000, fuel_level_pct = 50, engine_temp_c = 90,
      lat = 19.432608, lon = - 99.133209, timestamp = ''2025-01-01T00:00:00Z'',
      dtc_code = None\<rparr>"

definition faulty_sample :: sample where
  "faulty_sample =
     \<lparr>speed_kmph = 100, engine_rpm = 3000, fuel_level_pct = 50, engine_temp_c = 90,
      lat = 19.432608, lon = - 99.133209, timestamp = ''2025-01-01T00:00:01Z'',
      dtc_code = Some ''P0300''\<rparr>"

text \<open>The spec's fuel factor: 0.9 if the adjusted speed is strictly between 40 and 90.\<close>

definition spec_fuelFactor :: "real \<Rightarrow> real" where
  "spec_fuelFactor speed = (if 40 < speed \<and> speed < 90 then 0.9 else 1.2)"

definition urban_input :: sample where
  "urban_input =
     \<lparr>speed_kmph = 75, engine_rpm = 2000, fuel_level_pct = 49.998, engine_temp_c = 90,
      lat = 19.432608, lon = - 99.133209, timestamp = ''2025-01-01T00:00:00Z'',
      dtc_code = None\<rparr>"

definition urban_draws :: draws where
  "urban_draws = \<lparr>speed_rand = 0.5, dtc_rand = 0.5, code_rand = 0.5, sin_now = 0\<rparr>"

definition urban_draws_dtc :: draws where
  "urban_draws_dtc = \<lparr>speed_rand = 0.5, dtc_rand = 0.05, code_rand = 0.5, sin_now = 0\<rparr>"

text \<open>The static fields at load time, and a session that was started from them and has
  collected two samples.\<close>

definition idle_simulator :: "unit simulator" where
  "idle_simulator =
     \<lparr>isSimulating = False, simulationData = [], currentRoute = None,
      simulationStartTimestamp = None, simulationElapsedTime = 0, subscribed = False,
      syntheticData = [], isStreaming = False\<rparr>"

definition running_simulator :: "unit simulator" where
  "running_simulator =
     (snd (startSimulation ''URBAN'' 10 (Some [efficient_sample, faulty_sample]) 1000
             idle_simulator))
       \<lparr>simulationData := [efficient_sample, faulty_sample]\<rparr>"

section \<open>Decimal rounding\<close>

lemma toFixed_nonneg: "0 \<le> x \<Longrightarrow> 0 \<le> toFixed d x"
  by (simp add: toFixed_def)

lemma toFixed_mono_nonneg:
  assumes "0 \<le> x" "x \<le> y"
  shows "toFixed d x \<le> toFixed d y"
proof -
  have "x * 10 ^ d + 1 / 2 \<le> y * 10 ^ d + 1 / 2"
    using assms by (simp add: mult_right_mono)
  then have "\<lfloor>x * 10 ^ d + 1 / 2\<rfloor> \<le> \<lfloor>y * 10 ^ d + 1 / 2\<rfloor>"
    by (rule floor_mono)
  then have "(of_int \<lfloor>x * 10 ^ d + 1 / 2\<rfloor> :: real) / 10 ^ d
               \<le> of_int \<lfloor>y * 10 ^ d + 1 / 2\<rfloor> / 10 ^ d"
    by (simp add: divide_right_mono)
  then show ?thesis
    using assms by (simp add: toFixed_def)
qed

lemma toFixed_nonpos:
  assumes "x \<le> 0"
  shows "toFixed d x \<le> 0"
proof (cases "x < 0")
  case True
  then have "0 \<le> (- x) * 10 ^ d"
    by (intro mult_nonneg_nonneg) auto
  then have "0 \<le> (- x) * 10 ^ d + 1 / 2"
    by linarith
  then have "0 \<le> \<lfloor>(- x) * 10 ^ d + 1 / 2\<rfloor>" by simp
  then have "0 \<le> (of_int \<lfloor>(- x) * 10 ^ d + 1 / 2\<rfloor> :: real) / 10 ^ d" by simp
  then show ?thesis using True by (simp add: toFixed_def)
next
  case False
  then have "x = 0" using assms by simp
  then show ?thesis by (simp add: toFixed_def)
qed

lemma toFixed_neg: "toFixed d (- x) = - toFixed d x"
  unfolding toFixed_def by (cases "x = 0") auto

text \<open>Rounding to \<open>d\<close> decimals keeps the order, across the sign as well.\<close>

lemma toFixed_mono:
  assumes "x \<le> y"
  shows "toFixed d x \<le> toFixed d y"
proof (cases "0 \<le> x")
  case True
  then show ?thesis using assms by (rule toFixed_mono_nonneg)
next
  case x: False
  show ?thesis
  proof (cases "0 \<le> y")
    case True
    have "toFixed d x \<le> 0" using x by (simp add: toFixed_nonpos)
    also have "0 \<le> toFixed d y" using True by (rule toFixed_nonneg)
    finally show ?thesis .
  next
    case False
    then have "toFixed d (- y) \<le> toFixed d (- x)"
      using assms by (intro toFixed_mono_nonneg) auto
    then show ?thesis by (simp add: toFixed_neg)
  qed
qed

lemma foldl_add_sum_list:
  "foldl (\<lambda>total p. total + f p) a xs = a + sum_list (map f xs)" for a :: real
  by (induction xs arbitrary: a) (simp_all add: add.assoc)

section \<open>Rewards\<close>

lemma trim_catalog_codes:
  "trim ''P0420'' = ''P0420''" "trim ''P0171'' = ''P0171''" "trim ''P0300'' = ''P0300''"
  by (simp_all add: trim_def is_space_def)

lemma dtcInfo_Some:
  assumes "map_of dtcInfo code = Some e"
  shows "code \<noteq> [] \<and> trim code \<noteq> [] \<and> rewardImpact e \<in> {- 15, - 10, - 25}"
proof -
  from assms have "code = ''P0420'' \<or> code = ''P0171'' \<or> code = ''P0300''"
    by (auto simp: dtcInfo_def split: if_splits)
  then show ?thesis
    using assms by (auto simp: dtcInfo_def trim_catalog_codes)
qed

text \<open>The lookup returns an entry exactly for the codes of the catalog; a key inherited
  from the prototype gives a value that is no entry.\<close>

lemma getDiagnosticInfo_Own:
  "getDiagnosticInfo code = Own e \<longleftrightarrow> map_of dtcInfo code = Some e"
proof
  assume "getDiagnosticInfo code = Own e"
  then show "map_of dtcInfo code = Some e"
    by (auto simp: getDiagnosticInfo_def js_get_def split: if_splits option.splits)
next
  assume h: "map_of dtcInfo code = Some e"
  then have "code \<noteq> []" by (simp add: dtcInfo_Some)
  then show "getDiagnosticInfo code = Own e"
    using h by (simp add: getDiagnosticInfo_def js_get_def)
qed

lemma getDiagnosticInfo_None:
  "map_of dtcInfo code = None \<Longrightarrow>
     getDiagnosticInfo code = Inherited \<or> getDiagnosticInfo code = Missing"
  by (simp add: getDiagnosticInfo_def js_get_def)

lemma penalty_is_catalog_factor:
  "(case c of
      None \<Rightarrow> b
    | Some code \<Rightarrow>
        if trim code \<noteq> [] then
          (case getDiagnosticInfo code of
             Own info \<Rightarrow>
               if rewardImpact info \<noteq> 0 then b * (1 + rewardImpact info / 100) else b
           | _ \<Rightarrow> b)
        else b) = b * catalog_factor c"
proof (cases c)
  case None
  then show ?thesis by (simp add: catalog_factor_def)
next
  case (Some code)
  show ?thesis
  proof (cases "map_of dtcInfo code")
    case None
    then show ?thesis
      using getDiagnosticInfo_None[OF None] Some by (auto simp: catalog_factor_def)
  next
    case (Some e)
    then have "getDiagnosticInfo code = Own e" by (simp add: getDiagnosticInfo_Own)
    then show ?thesis
      using Some \<open>c = Some code\<close> dtcInfo_Some[OF Some] by (auto simp: catalog_factor_def)
  qed
qed

lemma pointReward_eq:
  "getDataPointRewardValue p =
     toFixed 4 (0.01
       * (if 40 \<le> speed_kmph p \<and> speed_kmph p \<le> 80 then 1.2 else 1)
       * (if 1500 \<le> engine_rpm p \<and> engine_rpm p \<le> 2500 then 1.15 else 1)
       * catalog_factor (dtc_code p))"
  unfolding getDataPointRewardValue_def Let_def penalty_is_catalog_factor
  by simp

lemma catalog_factor_nonneg: "0 \<le> catalog_factor c"
proof (cases c)
  case None
  then show ?thesis by (simp add: catalog_factor_def)
next
  case (Some code)
  show ?thesis
  proof (cases "map_of dtcInfo code")
    case None
    then show ?thesis using Some by (simp add: catalog_factor_def)
  next
    case (Some e)
    then show ?thesis
      using dtcInfo_Some[OF Some] \<open>c = Some code\<close> by (auto simp: catalog_factor_def)
  qed
qed

lemma pointReward_nonneg: "0 \<le> getDataPointRewardValue p"
  unfolding pointReward_eq
  by (intro toFixed_nonneg mult_nonneg_nonneg catalog_factor_nonneg) simp_all

lemma sum_pointReward_nonneg: "0 \<le> sum_list (map getDataPointRewardValue ps)"
  by (induction ps) (simp_all add: pointReward_nonneg)

lemma batch_eq:
  "getDataBatchRewardValue ps =
     toFixed 4 (sum_list (map getDataPointRewardValue ps) * batch_bonus (length ps))"
  by (cases ps)
     (simp_all add: getDataBatchRewardValue_def foldl_add_sum_list Let_def batch_bonus_def
        toFixed_def)

lemma batch_bonus_mono: "m \<le> n \<Longrightarrow> batch_bonus m \<le> batch_bonus n"
  by (simp add: batch_bonus_def)

lemma batch_bonus_nonneg: "0 \<le> batch_bonus n"
  by (simp add: batch_bonus_def)

text \<open>No point reward is negative, so a batch never loses by growing, whatever the
  appended samples are.\<close>

lemma batch_mono_append:
  "getDataBatchRewardValue ps \<le> getDataBatchRewardValue (ps @ qs)"
proof -
  let ?S = "\<lambda>xs. sum_list (map getDataPointRewardValue xs)"
  have "?S ps \<le> ?S ps + ?S qs"
    using sum_pointReward_nonneg[of qs] by simp
  then have "?S ps * batch_bonus (length ps)
               \<le> (?S ps + ?S qs) * batch_bonus (length ps + length qs)"
    by (intro mult_mono batch_bonus_mono batch_bonus_nonneg)
       (simp_all add: sum_pointReward_nonneg)
  then show ?thesis
    unfolding batch_eq by (simp add: toFixed_mono)
qed

lemma reward_efficient_sample: "getDataPointRewardValue efficient_sample = 0.0138"
  by (simp add: getDataPointRewardValue_def efficient_sample_def toFixed_def)

lemma reward_faulty_sample: "getDataPointRewardValue faulty_sample = 0.0075"
  by (simp add: getDataPointRewardValue_def faulty_sample_def toFixed_def trim_catalog_codes
        getDiagnosticInfo_def js_get_def dtcInfo_def)

text \<open>
  C9. Appending samples whose speed lies in the efficient range [40, 80] and which carry
  no trouble code never lowers the batch reward: the reward of the longer list is at
  least that of the shorter one.
\<close>

theorem getDataBatchRewardValue_append_mono:
  assumes "\<forall>p \<in> set appended. 40 \<le> speed_kmph p \<and> speed_kmph p \<le> 80 \<and> \<not> has_dtc p"
  shows "getDataBatchRewardValue dataPoints
           \<le> getDataBatchRewardValue (dataPoints @ appended)"
  by (rule batch_mono_append)

theorem getDataBatchRewardValue_append_mono_witness:
  "40 \<le> speed_kmph efficient_sample \<and> speed_kmph efficient_sample \<le> 80
   \<and> \<not> has_dtc efficient_sample
   \<and> getDataBatchRewardValue (replicate 9 faulty_sample) = 0.0675
   \<and> getDataBatchRewardValue
       (replicate 9 faulty_sample @ [efficient_sample, efficient_sample]) = 0.1046
   \<and> getDataBatchRewardValue (replicate 9 faulty_sample)
       \<le> getDataBatchRewardValue
            (replicate 9 faulty_sample @ [efficient_sample, efficient_sample])"
proof -
  have h: "\<forall>p \<in> set [efficient_sample, efficient_sample].
       40 \<le> speed_kmph p \<and> speed_kmph p \<le> 80 \<and> \<not> has_dtc p"
    by (simp add: efficient_sample_def has_dtc_def)
  have a: "getDataBatchRewardValue (replicate 9 faulty_sample) = 0.0675"
    by (simp add: batch_eq reward_faulty_sample batch_bonus_def sum_list_replicate
          toFixed_def)
  have b: "getDataBatchRewardValue
             (replicate 9 faulty_sample @ [efficient_sample, efficient_sample]) = 0.1046"
    by (simp add: batch_eq reward_efficient_sample reward_faulty_sample batch_bonus_def
          sum_list_replicate toFixed_def)
  show ?thesis
    using h a b
      getDataBatchRewardValue_append_mono[OF h, of "replicate 9 faulty_sample"]
    by simp
qed

section \<open>Efficiency score\<close>

lemma slice_last: "0 < w \<Longrightarrow> slice (- int w) xs = drop (length xs - w) xs"
  by (auto simp: slice_def Let_def max_def nat_diff_distrib')

lemma efficiency_example:
  "getVehicleEfficiencyScore
     [efficient_sample, efficient_sample, efficient_sample, efficient_sample,
      efficient_sample] 60 = Num 100"
  by (simp add: getVehicleEfficiencyScore_def slice_def efficient_sample_def Let_def
        js_div_def Math_round_def has_dtc_def)

text \<open>
  C3. With the window of 60, \<open>getVehicleEfficiencyScore\<close> returns on a list of \<open>n\<close>
  samples what it returns on the suffix of its last \<open>min 60 n\<close> samples: only the
  trailing window counts. The function takes no route type, so this holds for the
  samples of every route.
\<close>

theorem getVehicleEfficiencyScore_trailing_window:
  "getVehicleEfficiencyScore dataPoints 60 =
     getVehicleEfficiencyScore
       (drop (length dataPoints - min 60 (length dataPoints)) dataPoints) 60"
proof (cases "length dataPoints \<le> 60")
  case True
  then show ?thesis by (simp add: min_def)
next
  case False
  then have n: "60 < length dataPoints" by simp
  let ?w = "drop (length dataPoints - 60) dataPoints"
  have s1: "slice (- 60) dataPoints = ?w"
    using slice_last[of 60 dataPoints] by simp
  have s2: "slice (- 60) ?w = ?w"
    using slice_last[of 60 ?w] by simp
  have "getVehicleEfficiencyScore dataPoints 60 = getVehicleEfficiencyScore ?w 60"
    using n by (simp add: getVehicleEfficiencyScore_def s1 s2 Let_def)
  then show ?thesis using n by (simp add: min_def)
qed

section \<open>Route transformation\<close>

text \<open>In each case of the switch, \<^verbatim>\<open>route\<close> is the profile of that route.\<close>

lemma routes_known:
  "maxSpeed (the_own (js_get routes ''URBAN'')) = 60"
  "maxSpeed (the_own (js_get routes ''HIGHWAY'')) = 110"
  "maxSpeed (the_own (js_get routes ''MOUNTAIN'')) = 70"
  "maxSpeed (the_own (js_get routes ''RURAL'')) = 80"
  by (simp_all add: js_get_def routes_def)

lemma urban_example_dtc:
  "modifyDataForRoute urban_input ''URBAN'' urban_draws_dtc =
     urban_input\<lparr>speed_kmph := 45, engine_rpm := 2350, fuel_level_pct := 49.98,
       dtc_code := Some ''P0420''\<rparr>"
  by (simp add: modifyDataForRoute_def route_switch_def routes_known Let_def
        urban_input_def urban_draws_dtc_def fuelConsumptionFactor_def toFixed_def
        Math_round_def)

lemma urban_switch_speed:
  "speed_kmph (route_switch d ''URBAN'' rnd m) =
     min (max 15 (speed_kmph d * 0.6 + speed_rand rnd * 20 - 10)) 60"
  by (simp add: route_switch_def Let_def routes_known)

text \<open>
  C5. For every sample and every draw, the speed that the URBAN transformation returns,
  after its rounding to 2 decimals, lies in the closed interval [15, 60].
\<close>

theorem modifyDataForRoute_urban_speed_range:
  "15 \<le> speed_kmph (modifyDataForRoute dataPoint ''URBAN'' rnd)
   \<and> speed_kmph (modifyDataForRoute dataPoint ''URBAN'' rnd) \<le> 60"
proof -
  let ?v = "min (max 15 (speed_kmph dataPoint * 0.6 + speed_rand rnd * 20 - 10)) 60"
  have out: "speed_kmph (modifyDataForRoute dataPoint ''URBAN'' rnd) = toFixed 2 ?v"
    by (simp add: modifyDataForRoute_def Let_def urban_switch_speed)
  have lo: "toFixed 2 15 = 15" and hi: "toFixed 2 60 = 60"
    by (simp_all add: toFixed_def)
  have "15 \<le> ?v" "?v \<le> 60" by simp_all
  then have "toFixed 2 15 \<le> toFixed 2 ?v" "toFixed 2 ?v \<le> toFixed 2 60"
    by (simp_all only: toFixed_mono)
  then show ?thesis
    unfolding out lo hi by simp
qed

lemma route_switch_frame:
  "lat (route_switch d rt rnd m) = lat m"
  "lon (route_switch d rt rnd m) = lon m"
  "timestamp (route_switch d rt rnd m) = timestamp m"
  "sample.more (route_switch d rt rnd m) = sample.more m"
  by (simp_all add: route_switch_def Let_def)

lemma modify_frame:
  "lat (modifyDataForRoute d rt rnd) = lat d"
  "lon (modifyDataForRoute d rt rnd) = lon d"
  "timestamp (modifyDataForRoute d rt rnd) = timestamp d"
  "sample.more (modifyDataForRoute d rt rnd) = sample.more d"
  by (simp_all add: modifyDataForRoute_def Let_def route_switch_frame)

lemma modify_is_update:
  "modifyDataForRoute d rt rnd =
     d\<lparr>speed_kmph := speed_kmph (modifyDataForRoute d rt rnd),
       engine_rpm := engine_rpm (modifyDataForRoute d rt rnd),
       engine_temp_c := engine_temp_c (modifyDataForRoute d rt rnd),
       fuel_level_pct := fuel_level_pct (modifyDataForRoute d rt rnd),
       dtc_code := dtc_code (modifyDataForRoute d rt rnd)\<rparr>"
  by (rule sample.equality) (simp_all add: modify_frame)

text \<open>The function on the store allocates one object, which holds the result of the
  function on values, and writes nothing else.\<close>

lemma store_refines:
  assumes "dataPoint < length heap"
  shows "modifyDataForRoute_store heap dataPoint rt rnd =
           (length heap, heap @ [modifyDataForRoute (heap ! dataPoint) rt rnd])"
  using assms
  by (simp add: modifyDataForRoute_store_def modifyDataForRoute_def Let_def nth_append)

text \<open>
  C10. For every sample and route type, the result of \<open>modifyDataForRoute\<close> has the
  \<open>lat\<close>, \<open>lon\<close> and \<open>timestamp\<close> of its input: it is the input with new values
  for \<open>speed_kmph\<close>, \<open>engine_rpm\<close>, \<open>engine_temp_c\<close>, \<open>fuel_level_pct\<close> and
  \<open>dtc_code\<close> only. On the store, the result is a freshly allocated object, and the
  input object and every other object allocated before the call are as they were.
\<close>

theorem modifyDataForRoute_frame:
  assumes "dataPoint < length heap"
  shows "lat (modifyDataForRoute d rt rnd) = lat d
     \<and> lon (modifyDataForRoute d rt rnd) = lon d
     \<and> timestamp (modifyDataForRoute d rt rnd) = timestamp d
     \<and> (\<exists>v r t f c. modifyDataForRoute d rt rnd =
           d\<lparr>speed_kmph := v, engine_rpm := r, engine_temp_c := t, fuel_level_pct := f,
             dtc_code := c\<rparr>)
     \<and> fst (modifyDataForRoute_store heap dataPoint rt rnd) = length heap
     \<and> take (length heap) (snd (modifyDataForRoute_store heap dataPoint rt rnd)) = heap
     \<and> snd (modifyDataForRoute_store heap dataPoint rt rnd) ! dataPoint = heap ! dataPoint
     \<and> snd (modifyDataForRoute_store heap dataPoint rt rnd)
         ! fst (modifyDataForRoute_store heap dataPoint rt rnd)
       = modifyDataForRoute (heap ! dataPoint) rt rnd"
proof -
  have "\<exists>v r t f c. modifyDataForRoute d rt rnd =
           d\<lparr>speed_kmph := v, engine_rpm := r, engine_temp_c := t, fuel_level_pct := f,
             dtc_code := c\<rparr>"
    using modify_is_update[of d rt rnd] by blast
  then show ?thesis
    using assms by (simp add: modify_frame store_refines nth_append)
qed

theorem modifyDataForRoute_frame_witness:
  "(0 :: nat) < length [urban_input, efficient_sample]
   \<and> lat (modifyDataForRoute urban_input ''URBAN'' urban_draws_dtc) = lat urban_input
   \<and> dtc_code (modifyDataForRoute urban_input ''URBAN'' urban_draws_dtc) = Some ''P0420''
   \<and> fst (modifyDataForRoute_store [urban_input, efficient_sample] 0 ''URBAN''
            urban_draws_dtc) = 2
   \<and> snd (modifyDataForRoute_store [urban_input, efficient_sample] 0 ''URBAN''
            urban_draws_dtc)
       = [urban_input, efficient_sample,
          urban_input\<lparr>speed_kmph := 45, engine_rpm := 2350, fuel_level_pct := 49.98,
            dtc_code := Some ''P0420''\<rparr>]"
proof -
  have h: "(0 :: nat) < length [urban_input, efficient_sample]" by simp
  have s: "modifyDataForRoute_store [urban_input, efficient_sample] 0 ''URBAN''
             urban_draws_dtc
           = (2, [urban_input, efficient_sample,
                  modifyDataForRoute urban_input ''URBAN'' urban_draws_dtc])"
    using store_refines[OF h, of "''URBAN''" urban_draws_dtc] by simp
  show ?thesis
    using modifyDataForRoute_frame[OF h, of urban_input "''URBAN''" urban_draws_dtc]
    by (simp add: s urban_example_dtc)
qed

section \<open>Session start\<close>

lemma running_simulator_eq:
  "running_simulator =
     \<lparr>isSimulating = True, simulationData = [efficient_sample, faulty_sample],
      currentRoute = Some ''URBAN'', simulationStartTimestamp = Some 1000,
      simulationElapsedTime = 0, subscribed = True,
      syntheticData = [efficient_sample, faulty_sample], isStreaming = True\<rparr>"
  by (simp add: running_simulator_def idle_simulator_def startSimulation_def js_get_def
        routes_def Let_def)

lemma first_start:
  "fst (startSimulation ''URBAN'' 10 (Some [efficient_sample, faulty_sample]) 1000
          idle_simulator)
     = Inr (Started (Some ''Urban City Drive'') 10)"
  by (simp add: idle_simulator_def startSimulation_def js_get_def routes_def Let_def
        route_name_def)

text \<open>
  C6. A call of \<open>startSimulation\<close> while a session is running returns the failure
  result (\<^verbatim>\<open>success: false\<close>) and leaves the state as it was: the collected samples
  are not reset, the current route is not changed and the session stays active.
\<close>

theorem startSimulation_while_running:
  assumes "isSimulating s"
  shows "fst (startSimulation routeType durationMinutes load now s)
           = Inr (Failure ''A simulation is already running'')
     \<and> snd (startSimulation routeType durationMinutes load now s) = s
     \<and> simulationData (snd (startSimulation routeType durationMinutes load now s))
         = simulationData s
     \<and> currentRoute (snd (startSimulation routeType durationMinutes load now s))
         = currentRoute s
     \<and> isSimulating (snd (startSimulation routeType durationMinutes load now s))"
  using assms by (simp add: startSimulation_def)

theorem startSimulation_while_running_witness:
  "isSimulating running_simulator
   \<and> fst (startSimulation ''HIGHWAY'' 5 None 2000 running_simulator)
       = Inr (Failure ''A simulation is already running'')
   \<and> snd (startSimulation ''HIGHWAY'' 5 None 2000 running_simulator) = running_simulator
   \<and> simulationData (snd (startSimulation ''HIGHWAY'' 5 None 2000 running_simulator))
       = [efficient_sample, faulty_sample]
   \<and> currentRoute (snd (startSimulation ''HIGHWAY'' 5 None 2000 running_simulator))
       = Some ''URBAN''"
proof -
  have h: "isSimulating running_simulator"
    by (simp add: running_simulator_eq)
  show ?thesis
    using h startSimulation_while_running[OF h, of "''HIGHWAY''" 5 None 2000]
    by (simp add: running_simulator_eq)
qed

section \<open>Valuation\<close>

lemma decimal_string_lat: "decimal_string (lat efficient_sample) = ''19.432608''"
  by code_simp

lemma decimal_string_lon: "decimal_string (lon efficient_sample) = ''-99.133209''"
  by code_simp

lemma estimate_location_example:
  "estimateDataValue example_engine [efficient_sample] ''LOCATION'' = Inr (Num 0.065)"
  by (simp add: estimateDataValue_def example_engine_def js_get_def dataTypes_def
        decimal_string_lat decimal_string_lon after_dot_def toFixed_def Let_def)

lemma known_type_Own:
  assumes "dataType \<in> set (map fst dataTypes)"
  shows "\<exists>t. js_get dataTypes dataType = Own t"
proof -
  from assms obtain t where "map_of dataTypes dataType = Some t"
    by (cases "map_of dataTypes dataType") (auto simp: map_of_eq_None_iff)
  then show ?thesis by (simp add: js_get_def)
qed

lemma estimate_Own:
  assumes "js_get dataTypes dataType = Own t"
    and "dataType = ''PERFORMANCE'' \<longrightarrow> length dataPoints \<le> maxArguments engine"
  shows "\<exists>v. estimateDataValue engine dataPoints dataType = Inr (Num v)"
  using assms by (auto simp: estimateDataValue_def Let_def Math_max_def Math_min_def)

lemma estimate_Missing:
  assumes "map_of dataTypes dataType = None" "dataType \<notin> set object_prototype_keys"
  shows "estimateDataValue engine (p # ps) dataType
           = Inl (Error (''Invalid data type: '' @ dataType))"
  using assms by (simp add: estimateDataValue_def js_get_def)

text \<open>A category that names an inherited member passes the check of the type and
  yields \<^verbatim>\<open>NaN\<close>.\<close>

lemma estimate_inherited:
  "estimateDataValue engine (p # ps) ''toString'' = Inr NaN"
  by (simp add: estimateDataValue_def js_get_def dataTypes_def object_prototype_keys_def)

text \<open>For the category PERFORMANCE, a list longer than the engine can spread makes
  \<^verbatim>\<open>Math.max(...speeds)\<close> throw.\<close>

lemma estimate_performance_RangeError:
  assumes "length dataPoints > maxArguments engine"
  shows "estimateDataValue engine dataPoints ''PERFORMANCE'' = Inl RangeError"
proof -
  have "dataPoints \<noteq> []" using assms by auto
  moreover have "\<exists>t. js_get dataTypes ''PERFORMANCE'' = Own t"
    by (simp add: js_get_def dataTypes_def)
  ultimately show ?thesis
    using assms by (auto simp: estimateDataValue_def Let_def Math_max_def)
qed

text \<open>
  C7, as the spec states it, fails: on the empty list, a category that is no data type
  does not throw, 0 is returned.
\<close>

theorem estimateDataValue_unknown_empty_counterexample:
  "''BOGUS'' \<notin> set (map fst dataTypes)
   \<and> estimateDataValue example_engine ([] :: sample list) ''BOGUS'' = Inr (Num 0)"
  by (simp add: estimateDataValue_def dataTypes_def)

text \<open>
  C7, amended. On the empty list \<open>estimateDataValue\<close> returns 0 whatever the category.
  On a nonempty list, a category that is neither a data type nor the name of a member
  that every object inherits throws the error \<^verbatim>\<open>Invalid data type\<close>. For a category
  that is a data type it does not throw but returns a number, provided that, for the
  category PERFORMANCE, the list is no longer than the engine can spread as the
  arguments of one call.
\<close>

theorem estimateDataValue_unknown_category:
  "estimateDataValue engine ([] :: 'a sample_scheme list) dataType = Inr (Num 0)
   \<and> (dataType \<notin> set (map fst dataTypes) \<and> dataType \<notin> set object_prototype_keys \<longrightarrow>
        estimateDataValue engine ((dataPoint :: 'a sample_scheme) # dataPoints) dataType
          = Inl (Error (''Invalid data type: '' @ dataType)))
   \<and> (dataType \<in> set (map fst dataTypes)
        \<and> (dataType = ''PERFORMANCE'' \<longrightarrow> length samples \<le> maxArguments engine) \<longrightarrow>
        (\<exists>v. estimateDataValue engine (samples :: 'a sample_scheme list) dataType
               = Inr (Num v)))"
proof -
  have a: "estimateDataValue engine ([] :: 'a sample_scheme list) dataType = Inr (Num 0)"
    by (simp add: estimateDataValue_def)
  have b: "estimateDataValue engine (dataPoint # dataPoints) dataType
          = Inl (Error (''Invalid data type: '' @ dataType))"
    if "dataType \<notin> set (map fst dataTypes)" "dataType \<notin> set object_prototype_keys"
  proof -
    from that(1) have "map_of dataTypes dataType = None"
      by (simp add: map_of_eq_None_iff)
    then show ?thesis using that(2) by (rule estimate_Missing)
  qed
  have c: "\<exists>v. estimateDataValue engine samples dataType = Inr (Num v)"
    if "dataType \<in> set (map fst dataTypes)"
      and "dataType = ''PERFORMANCE'' \<longrightarrow> length samples \<le> maxArguments engine"
    using known_type_Own[OF that(1)] estimate_Own that(2) by blast
  show ?thesis using a b c by blast
qed

theorem estimateDataValue_unknown_category_witness:
  "''BOGUS'' \<notin> set (map fst dataTypes) \<and> ''BOGUS'' \<notin> set object_prototype_keys
   \<and> estimateDataValue example_engine [efficient_sample] ''BOGUS''
       = Inl (Error ''Invalid data type: BOGUS'')
   \<and> ''PERFORMANCE'' \<in> set (map fst dataTypes)
   \<and> length [efficient_sample, faulty_sample] \<le> maxArguments example_engine
   \<and> estimateDataValue example_engine [efficient_sample, faulty_sample] ''PERFORMANCE''
       = Inr (Num 0.072)"
proof -
  have h1: "''BOGUS'' \<notin> set (map fst dataTypes)" by (simp add: dataTypes_def)
  have h2: "''BOGUS'' \<notin> set object_prototype_keys" by (simp add: object_prototype_keys_def)
  have h3: "''PERFORMANCE'' \<in> set (map fst dataTypes)" by (simp add: dataTypes_def)
  have h4: "length [efficient_sample, faulty_sample] \<le> maxArguments example_engine"
    by (simp add: example_engine_def)
  have v: "estimateDataValue example_engine [efficient_sample, faulty_sample] ''PERFORMANCE''
             = Inr (Num 0.072)"
    by (simp add: estimateDataValue_def example_engine_def js_get_def dataTypes_def
          Math_max_def Math_min_def efficient_sample_def faulty_sample_def toFixed_def)
  show ?thesis
    using h1 h2 h3 h4 v
      estimateDataValue_unknown_category
        [of example_engine "''BOGUS''" efficient_sample "[]"
            "[efficient_sample, faulty_sample]"]
    by simp
qed

text \<open>
  C8. For the category COMPLETE, whose base value is 0.15, \<open>estimateDataValue\<close> on 101
  copies of a sample is \<open>101 * 0.15 * 1.1\<close> rounded to 4 decimals, which is 16.665; on
  any nonempty list the factor 1.1 applies exactly when there are more than 100 samples.
\<close>

theorem estimateDataValue_complete:
  "estimateDataValue engine (replicate 101 (point :: 'a sample_scheme)) ''COMPLETE''
     = Inr (Num (toFixed 4 (101 * 0.15 * 1.1)))
   \<and> toFixed 4 (101 * 0.15 * 1.1) = 16.665
   \<and> (\<exists>t. js_get dataTypes ''COMPLETE'' = Own t \<and> baseValue t = 0.15)
   \<and> estimateDataValue engine ((dataPoint :: 'a sample_scheme) # dataPoints) ''COMPLETE''
       = Inr (Num (toFixed 4 (real (length (dataPoint # dataPoints)) * 0.15
                              * (if length (dataPoint # dataPoints) > 100 then 1.1 else 1))))"
proof -
  have t: "js_get dataTypes ''COMPLETE'' = Own (snd (last dataTypes))"
    by (simp add: js_get_def dataTypes_def)
  have bv: "baseValue (snd (last dataTypes)) = 0.15"
    by (simp add: dataTypes_def)
  have gen: "estimateDataValue engine ps ''COMPLETE''
       = Inr (Num (toFixed 4 (real (length ps) * 0.15 * (if length ps > 100 then 1.1 else 1))))"
    if "ps \<noteq> []" for ps :: "'a sample_scheme list"
    using that by (simp add: estimateDataValue_def t bv Let_def)
  have "estimateDataValue engine (replicate 101 point) ''COMPLETE''
     = Inr (Num (toFixed 4 (101 * 0.15 * 1.1)))"
    using gen[of "replicate 101 point"] by simp
  moreover have "toFixed 4 (101 * 0.15 * 1.1) = 16.665"
    by (simp add: toFixed_def)
  moreover have "\<exists>t. js_get dataTypes ''COMPLETE'' = Own t \<and> baseValue t = 0.15"
    using t bv by blast
  ultimately show ?thesis
    using gen[of "dataPoint # dataPoints"] by simp
qed

end
